theory Spec2Isabelle
  imports Main "HOL-Library.Sublist" "HOL-Library.Char_ord" "HOL-Library.List_Lexorder"
    "HOL-Library.Multiset"
begin

section \<open>Strings\<close>

text \<open>
  A Python \<open>str\<close> is modelled as a \<open>string\<close> whose characters are the code points
  below 256 (ASCII and the Latin-1 supplement). The keyword tables of the program are
  ASCII. A code point above 255 that occurs in a literal of the source (an emoji, an
  arrow) is spelled \<open>U+XXXX\<close> in the model; no function below inspects such text.

  \<open>k in s\<close> on strings is the contiguous-substring test, \<open>sublist k s\<close>.
\<close>

definition lower_char :: "char \<Rightarrow> char" where
  \<comment> \<open>\<open>str.lower\<close> on one code point below 256: A-Z, and the capital letters
      U+00C0..U+00DE without the multiplication sign U+00D7, move up by 32.\<close>
  "lower_char c =
     (let n = (of_char c :: nat)
      in if (65 \<le> n \<and> n \<le> 90) \<or> (192 \<le> n \<and> n \<le> 222 \<and> n \<noteq> 215)
         then char_of (n + 32) else c)"

definition lower :: "string \<Rightarrow> string" where
  "lower s = map lower_char s"

definition isdigit_char :: "char \<Rightarrow> bool" where
  \<comment> \<open>\<open>str.isdigit\<close> accepts the decimal digits and, below 256, the superscript
      digits U+00B2, U+00B3 and U+00B9.\<close>
  "isdigit_char c =
     (let n = (of_char c :: nat)
      in (48 \<le> n \<and> n \<le> 57) \<or> n = 178 \<or> n = 179 \<or> n = 185)"

definition isdigit :: "string \<Rightarrow> bool" where
  "isdigit s = (s \<noteq> [] \<and> list_all isdigit_char s)"

definition decimal_char :: "char \<Rightarrow> bool" where
  "decimal_char c = (let n = (of_char c :: nat) in 48 \<le> n \<and> n \<le> 57)"

datatype error = ValueError

definition int_str :: "string \<Rightarrow> error + int" where
  \<comment> \<open>\<open>int(s)\<close> for the strings the program passes to it, those with \<open>s.isdigit()\<close>:
      the decimal value when every character is a decimal digit, ValueError on a
      superscript digit. (The interpreter's configurable limit on the number of digits
      is not modelled.)\<close>
  "int_str s =
     (if s \<noteq> [] \<and> list_all decimal_char s
      then Inr (foldl (\<lambda>a c. 10 * a + (int (of_char c) - 48)) 0 s)
      else Inl ValueError)"

primrec any_keyword_in :: "string list \<Rightarrow> string \<Rightarrow> bool" where
  \<comment> \<open>\<open>for keyword in keywords: if keyword in text: return ...\<close>; True when the loop
      returns, False when it runs to its end.\<close>
  "any_keyword_in [] text = False"
| "any_keyword_in (keyword # rest) text =
     (if sublist keyword text then True else any_keyword_in rest text)"

section \<open>Urgency classifier\<close>

definition critical_keywords :: "string list" where
  "critical_keywords =
     [''chest pain'', ''heart attack'', ''stroke'', ''bleeding'', ''unconscious'',
      ''difficulty breathing'', ''severe pain'', ''poisoning'', ''overdose'', ''suicide'',
      ''severe injury'', ''broken bone'', ''head injury'']"

definition high_keywords :: "string list" where
  "high_keywords =
     [''fever'', ''infection'', ''rash'', ''severe headache'', ''nausea'', ''vomiting'',
      ''dizzy'', ''swelling'', ''shortness of breath'']"

definition assess_urgency :: "string option \<Rightarrow> string option \<Rightarrow> string option \<Rightarrow> string" where
  "assess_urgency symptoms age medical_history =
     (case symptoms of
        None \<Rightarrow> ''medium''
      | Some s \<Rightarrow>
          if s = [] then ''medium''
          else
            let symptoms_lower = lower s
            in if any_keyword_in critical_keywords symptoms_lower then ''critical''
               else if any_keyword_in high_keywords symptoms_lower then ''high''
               else ''medium'')"

section \<open>Specialty classifier\<close>

definition emergency_keywords :: "string list" where
  "emergency_keywords =
     [''chest pain'', ''heart attack'', ''stroke'', ''bleeding'', ''unconscious'',
      ''difficulty breathing'', ''severe pain'', ''poisoning'', ''overdose'', ''suicide'',
      ''severe injury'']"

definition cardiology_keywords :: "string list" where
  "cardiology_keywords =
     [''heart'', ''cardiac'', ''chest pain'', ''palpitations'', ''blood pressure'',
      ''cholesterol'', ''arrhythmia'', ''angina'']"

definition dermatology_keywords :: "string list" where
  "dermatology_keywords =
     [''skin'', ''rash'', ''acne'', ''mole'', ''eczema'', ''psoriasis'', ''dermatitis'',
      ''itching'', ''burning skin'']"

definition orthopedics_keywords :: "string list" where
  "orthopedics_keywords =
     [''bone'', ''joint'', ''back pain'', ''knee'', ''shoulder'', ''hip'', ''fracture'',
      ''sprain'', ''arthritis'', ''muscle pain'']"

definition mental_health_keywords :: "string list" where
  "mental_health_keywords =
     [''depression'', ''anxiety'', ''stress'', ''panic'', ''mental health'', ''counseling'',
      ''therapy'', ''mood'', ''psychiatric'']"

definition gynecology_keywords :: "string list" where
  "gynecology_keywords =
     [''pregnancy'', ''menstrual'', ''gynecological'', ''contraception'', ''pap smear'',
      ''mammogram'', ''breast'']"

definition age_under_18 :: "string option \<Rightarrow> error + bool" where
  \<comment> \<open>The condition \<open>age and age.isdigit() and int(age) < 18\<close>, evaluated left to
      right; \<open>int\<close> is reached only when the first two conjuncts hold.\<close>
  "age_under_18 age =
     (case age of
        None \<Rightarrow> Inr False
      | Some a \<Rightarrow>
          if a = [] then Inr False
          else if \<not> isdigit a then Inr False
          else (case int_str a of Inl e \<Rightarrow> Inl e | Inr n \<Rightarrow> Inr (n < 18)))"

definition determine_specialty :: "string option \<Rightarrow> string option \<Rightarrow> error + string" where
  "determine_specialty symptoms age =
     (case symptoms of
        None \<Rightarrow> Inr ''general''
      | Some s \<Rightarrow>
          if s = [] then Inr ''general''
          else
            let symptoms_lower = lower s
            in if any_keyword_in emergency_keywords symptoms_lower then Inr ''emergency''
               else if any_keyword_in cardiology_keywords symptoms_lower then Inr ''cardiology''
               else if any_keyword_in dermatology_keywords symptoms_lower then Inr ''dermatology''
               else if any_keyword_in orthopedics_keywords symptoms_lower then Inr ''orthopedics''
               else if any_keyword_in mental_health_keywords symptoms_lower
                 then Inr ''mental_health''
               else
                 (case age_under_18 age of
                    Inl e \<Rightarrow> Inl e
                  | Inr True \<Rightarrow> Inr ''pediatrics''
                  | Inr False \<Rightarrow>
                      if any_keyword_in gynecology_keywords symptoms_lower
                      then Inr ''gynecology''
                      else Inr ''general''))"

section \<open>Reading an age, as the specification words it\<close>


definition decimal_value :: "string \<Rightarrow> int" where
  "decimal_value s = foldl (\<lambda>a c. 10 * a + (int (of_char c) - 48)) 0 s"


abbreviation hits :: "string list \<Rightarrow> string \<Rightarrow> bool" where
  "hits keywords s \<equiv> \<exists>k \<in> set keywords. sublist k (lower s)"

section \<open>Entity extractor\<close>

text \<open>
  The patterns are written as data: a sequence of items, each a character class with a
  repetition count, or a word boundary. Group 1, where a pattern has one, is a single item.
\<close>

datatype char_class =
    Chr char
  | Range char char
  | Digit
  | Word
  | Space
  | Any_of "char_class list"

datatype item = Rep char_class nat "nat option" | Boundary

record pattern =
  items :: "item list"
  group1 :: "nat option"

record re_match =
  group0 :: string
  group_1 :: string

definition lit :: "string \<Rightarrow> item list" where
  "lit s = map (\<lambda>c. Rep (Chr c) 1 (Some 1)) s"

definition name_patterns :: "pattern list" where
  "name_patterns =
     [\<lparr>items = lit ''I'm'' @ [Rep Space 1 None, Rep Word 1 None], group1 = Some 4\<rparr>,
      \<lparr>items = lit ''I am'' @ [Rep Space 1 None, Rep Word 1 None], group1 = Some 5\<rparr>,
      \<lparr>items = lit ''name'' @ [Rep Space 1 None] @ lit ''is'' @ [Rep Space 1 None, Rep Word 1 None],
        group1 = Some 8\<rparr>,
      \<lparr>items = lit ''this'' @ [Rep Space 1 None] @ lit ''is'' @ [Rep Space 1 None, Rep Word 1 None],
        group1 = Some 8\<rparr>]"

definition email_pattern :: pattern where
  "email_pattern =
     \<lparr>items =
        [Boundary,
         Rep (Any_of [Range CHR ''A'' CHR ''Z'', Range CHR ''a'' CHR ''z'', Range CHR ''0'' CHR ''9'',
                      Chr CHR ''.'', Chr CHR ''_'', Chr CHR ''%'', Chr CHR ''+'', Chr CHR ''-'']) 1 None]
        @ lit ''@''
        @ [Rep (Any_of [Range CHR ''A'' CHR ''Z'', Range CHR ''a'' CHR ''z'', Range CHR ''0'' CHR ''9'',
                        Chr CHR ''.'', Chr CHR ''-'']) 1 None]
        @ lit ''.''
        @ [Rep (Any_of [Range CHR ''A'' CHR ''Z'', Chr CHR ''|'', Range CHR ''a'' CHR ''z'']) 2 None,
           Boundary],
      group1 = None\<rparr>"

definition phone_patterns :: "pattern list" where
  "phone_patterns =
     [\<lparr>items =
         [Boundary, Rep Digit 3 (Some 3),
          Rep (Any_of [Chr CHR ''-'', Chr CHR ''.'', Space]) 0 (Some 1), Rep Digit 3 (Some 3),
          Rep (Any_of [Chr CHR ''-'', Chr CHR ''.'', Space]) 0 (Some 1), Rep Digit 4 (Some 4),
          Boundary],
        group1 = None\<rparr>,
      \<lparr>items =
         [Boundary] @ lit ''('' @ [Rep Digit 3 (Some 3)] @ lit '')''
         @ [Rep Space 0 None, Rep Digit 3 (Some 3),
            Rep (Any_of [Chr CHR ''-'', Chr CHR ''.'', Space]) 0 (Some 1), Rep Digit 4 (Some 4),
            Boundary],
        group1 = None\<rparr>]"

definition isspace_char :: "char \<Rightarrow> bool" where
  "isspace_char c =
     (let n = (of_char c :: nat)
      in (9 \<le> n \<and> n \<le> 13) \<or> (28 \<le> n \<and> n \<le> 32) \<or> n = 133 \<or> n = 160)"

definition word_char :: "char \<Rightarrow> bool" where
  "word_char c =
     (let n = (of_char c :: nat)
      in (48 \<le> n \<and> n \<le> 57) \<or> (65 \<le> n \<and> n \<le> 90) \<or> n = 95 \<or> (97 \<le> n \<and> n \<le> 122)
         \<or> n = 170 \<or> n = 178 \<or> n = 179 \<or> n = 181 \<or> n = 185 \<or> n = 186
         \<or> (188 \<le> n \<and> n \<le> 190) \<or> (192 \<le> n \<and> n \<le> 214) \<or> (216 \<le> n \<and> n \<le> 246)
         \<or> 248 \<le> n)"

fun in_class :: "bool \<Rightarrow> char_class \<Rightarrow> char \<Rightarrow> bool" where
  "in_class ic (Chr l) c = (if ic then lower_char c = lower_char l else c = l)"
| "in_class ic (Range a b) c = ((of_char a :: nat) \<le> of_char c \<and> (of_char c :: nat) \<le> of_char b)"
| "in_class ic Digit c = decimal_char c"
| "in_class ic Word c = word_char c"
| "in_class ic Space c = isspace_char c"
| "in_class ic (Any_of cs) c = (\<exists>x \<in> set cs. in_class ic x c)"

definition at_boundary :: "char option \<Rightarrow> string \<Rightarrow> bool" where
  "at_boundary prev s =
     ((case prev of None \<Rightarrow> False | Some p \<Rightarrow> word_char p)
      \<noteq> (case s of [] \<Rightarrow> False | c # _ \<Rightarrow> word_char c))"

fun first_some :: "'a option list \<Rightarrow> 'a option" where
  "first_some [] = None"
| "first_some (Some x # _) = Some x"
| "first_some (None # rest) = first_some rest"

fun match_here :: "bool \<Rightarrow> item list \<Rightarrow> char option \<Rightarrow> string \<Rightarrow> string list option" where
  "match_here ic [] prev s = Some []"
| "match_here ic (Boundary # rest) prev s =
     (if at_boundary prev s then map_option (Cons []) (match_here ic rest prev s) else None)"
| "match_here ic (Rep cls lo hi # rest) prev s =
     (let n = length (takeWhile (in_class ic cls) s);
          m = (case hi of None \<Rightarrow> n | Some h \<Rightarrow> min n h)
      in first_some
           (map (\<lambda>k. map_option (Cons (take k s))
                        (match_here ic rest (if k = 0 then prev else Some (last (take k s)))
                           (drop k s)))
                (rev [lo ..< Suc m])))"

fun search_from :: "bool \<Rightarrow> item list \<Rightarrow> char option \<Rightarrow> string \<Rightarrow> string list option" where
  "search_from ic its prev [] = match_here ic its prev []"
| "search_from ic its prev (c # cs) =
     (case match_here ic its prev (c # cs) of
        Some segments \<Rightarrow> Some segments
      | None \<Rightarrow> search_from ic its (Some c) cs)"

definition re_search :: "pattern \<Rightarrow> bool \<Rightarrow> string \<Rightarrow> re_match option" where
  "re_search p ignorecase s =
     map_option
       (\<lambda>segments.
          \<lparr>group0 = concat segments,
           group_1 = (case group1 p of None \<Rightarrow> [] | Some i \<Rightarrow> concat (take 1 (drop i segments)))\<rparr>)
       (search_from ignorecase (items p) None s)"

definition strip :: "string \<Rightarrow> string" where
  "strip s = rev (dropWhile isspace_char (rev (dropWhile isspace_char s)))"

record details =
  details_name :: string
  details_age :: string
  details_gender :: string
  details_phone :: string
  details_email :: string
  details_insurance :: string
  details_symptoms :: string
  details_medical_history :: string

definition default_details :: details where
  "default_details =
     \<lparr>details_name = ''Unknown'', details_age = [], details_gender = [], details_phone = [],
      details_email = [], details_insurance = [], details_symptoms = [],
      details_medical_history = []\<rparr>"

fun first_match ::
  "(pattern \<Rightarrow> bool \<Rightarrow> string \<Rightarrow> re_match option) \<Rightarrow> pattern list \<Rightarrow> bool \<Rightarrow> string \<Rightarrow>
   re_match option" where
  "first_match search [] ignorecase s = None"
| "first_match search (p # ps) ignorecase s =
     (case search p ignorecase s of
        Some m \<Rightarrow> Some m
      | None \<Rightarrow> first_match search ps ignorecase s)"

definition extract_patient_details ::
  "(pattern \<Rightarrow> bool \<Rightarrow> string \<Rightarrow> re_match option) \<Rightarrow> string \<Rightarrow> details" where
  "extract_patient_details search conversation_history =
     (if conversation_history = [] then default_details
      else
        let details = default_details;
            details = (case first_match search name_patterns True conversation_history of
                         Some m \<Rightarrow> details\<lparr>details_name := strip (group_1 m)\<rparr>
                       | None \<Rightarrow> details);
            details = (case search email_pattern False conversation_history of
                         Some m \<Rightarrow> details\<lparr>details_email := strip (group0 m)\<rparr>
                       | None \<Rightarrow> details);
            details = (case first_match search phone_patterns False conversation_history of
                         Some m \<Rightarrow> details\<lparr>details_phone := strip (group0 m)\<rparr>
                       | None \<Rightarrow> details)
        in details)"

section \<open>Environment and state\<close>

text \<open>
  What the program reads from outside itself is collected in an environment: the
  configuration, the clock (the text of the \<open>n\<close>-th reading of \<open>datetime.now()\<close> in
  the two formats used), the exception a database operation or the mail transport
  raises, if any, and the library functions \<open>str.upper\<close> and \<open>str.title\<close>, whose
  results can leave the code points below 256 and are therefore not defined here.
\<close>

record env =
  EMAIL_USER :: "string option"
  EMAIL_APP_PASSWORD :: "string option"
  DB_FILE :: string
  strftime_hms :: "nat \<Rightarrow> string"
  strftime_full :: "nat \<Rightarrow> string"
  db_fault :: "string option"
  smtp_fault :: "string option"
  str_upper :: "string \<Rightarrow> string"
  str_title :: "string \<Rightarrow> string"

text \<open>
  The state is the \<open>patients\<close> table of the database file (absent before it is
  created), the log buffer in the session state, and the number of clock readings made
  so far. \<open>calls\<close> is a trace kept for the statements about the notification: it
  records each entry into \<open>send_admin_notification\<close> and \<open>send_email_message\<close> and
  each message handed to the SMTP server.
\<close>

record patient_row =
  row_id :: int
  row_timestamp :: string
  row_name :: string
  row_age :: string
  row_gender :: string
  row_phone :: string
  row_email :: string
  row_insurance :: string
  row_symptoms :: string
  row_medical_history :: string
  row_specialty :: string
  row_urgency :: string
  row_status :: string

record patients_table =
  table_rows :: "patient_row list"
  table_seq :: int

datatype call =
    Send_admin_notification string
  | Send_email_message string string string
  | Smtp_sendmail string string string

record world =
  patients :: "patients_table option"
  system_logs :: "string list"
  clock :: nat
  calls :: "call list"

definition truthy :: "string option \<Rightarrow> bool" where
  \<comment> \<open>The truth value of a value that is \<open>None\<close> or a string.\<close>
  "truthy v = (case v of None \<Rightarrow> False | Some s \<Rightarrow> s \<noteq> [])"

definition or_else :: "string option \<Rightarrow> string \<Rightarrow> string" where
  \<comment> \<open>\<open>v or d\<close>\<close>
  "or_else v d = (case v of None \<Rightarrow> d | Some s \<Rightarrow> if s = [] then d else s)"

definition EMAIL_ENABLED :: "env \<Rightarrow> bool" where
  "EMAIL_ENABLED env = (truthy (EMAIL_USER env) \<and> truthy (EMAIL_APP_PASSWORD env))"

fun str_nat :: "nat \<Rightarrow> string" where
  \<comment> \<open>\<open>str(n)\<close> for a length.\<close>
  "str_nat n =
     (if n < 10 then [char_of (48 + n)]
      else str_nat (n div 10) @ [char_of (48 + n mod 10)])"

definition log_system_message :: "env \<Rightarrow> world \<Rightarrow> string \<Rightarrow> world" where
  "log_system_message env w message =
     w\<lparr>system_logs := system_logs w @ [''['' @ strftime_hms env (clock w) @ ''] '' @ message],
       clock := Suc (clock w)\<rparr>"

section \<open>Patient record repository\<close>

definition empty_table :: patients_table where
  "empty_table = \<lparr>table_rows = [], table_seq = 0\<rparr>"

definition init_database :: "env \<Rightarrow> world \<Rightarrow> bool \<times> world" where
  "init_database env w =
     (case db_fault env of
        Some e \<Rightarrow>
          (False, log_system_message env w (''DATABASE ERROR: Failed to initialize - '' @ e))
      | None \<Rightarrow>
          let w1 = w\<lparr>patients :=
                     Some (case patients w of None \<Rightarrow> empty_table | Some t \<Rightarrow> t)\<rparr>
          in (True, log_system_message env w1 (''DATABASE: Connected to '' @ DB_FILE env)))"

definition order_by_timestamp_desc :: "patient_row list \<Rightarrow> patient_row list" where
  \<comment> \<open>\<open>ORDER BY timestamp DESC\<close> on a text column: descending in the order of the
      strings. SQL leaves the order of rows with equal timestamps open; here they keep
      their order in the table.\<close>
  "order_by_timestamp_desc rs = rev (sort_key row_timestamp (rev rs))"

definition select_all :: "env \<Rightarrow> patients_table option \<Rightarrow> string + patient_row list" where
  \<comment> \<open>\<open>pd.read_sql_query("SELECT * FROM patients ORDER BY timestamp DESC", conn)\<close> on
      a fresh connection: the exception's text, or the rows.\<close>
  "select_all env table =
     (case db_fault env of
        Some e \<Rightarrow> Inl e
      | None \<Rightarrow>
          (case table of
             None \<Rightarrow>
               Inl (''Execution failed on sql 'SELECT * FROM patients ORDER BY timestamp DESC': ''
                    @ ''no such table: patients'')
           | Some t \<Rightarrow> Inr (order_by_timestamp_desc (table_rows t))))"

definition get_all_patients :: "env \<Rightarrow> world \<Rightarrow> patient_row list \<times> world" where
  "get_all_patients env w =
     (let w1 = log_system_message env w ''DATABASE: Retrieving all patient records''
      in case select_all env (patients w1) of
           Inr df \<Rightarrow>
             (df, log_system_message env w1
                    (''DATABASE: Retrieved '' @ str_nat (length df) @ '' patient records''))
         | Inl e \<Rightarrow> ([], log_system_message env w1 (''DATABASE ERROR: '' @ e)))"

definition insert_patient ::
  "env \<Rightarrow> patients_table option \<Rightarrow> patient_row \<Rightarrow> string + patients_table" where
  \<comment> \<open>The \<open>INSERT\<close> on a fresh connection, with its commit: the exception's text, or
      the table afterwards. The \<open>AUTOINCREMENT\<close> key is one more than the largest key the
      table has ever held (\<open>table_seq\<close>, and the keys present); the insert fails when that
      is the largest 64-bit integer. The \<open>status\<close> column takes its default.\<close>
  "insert_patient env table r =
     (case db_fault env of
        Some e \<Rightarrow> Inl e
      | None \<Rightarrow>
          (case table of
             None \<Rightarrow> Inl ''no such table: patients''
           | Some t \<Rightarrow>
               let largest = fold max (map row_id (table_rows t)) (table_seq t)
               in if largest \<ge> 9223372036854775807 then Inl ''database or disk is full''
                  else Inr \<lparr>table_rows =
                             table_rows t @ [r\<lparr>row_id := largest + 1, row_status := ''pending''\<rparr>],
                           table_seq = largest + 1\<rparr>))"

section \<open>Notification\<close>

definition URGENCY_LEVELS :: "(string \<times> string) list" where
  "URGENCY_LEVELS =
     [(''critical'', ''U+1F534 CRITICAL - Immediate attention required''),
      (''high'', ''U+1F7E0 HIGH - Same day appointment needed''),
      (''medium'', ''U+1F7E1 MEDIUM - Within 3-5 days''),
      (''low'', ''U+1F7E2 LOW - Routine care, within 1-2 weeks'')]"

record dept =
  dept_name :: string
  dept_icon :: string
  dept_color :: string

definition dept_info :: "(string \<times> dept) list" where
  "dept_info =
     [(''emergency'',
         \<lparr>dept_name = ''Emergency Department'', dept_icon = ''U+1F6A8'', dept_color = ''#dc2626''\<rparr>),
      (''cardiology'',
         \<lparr>dept_name = ''Cardiology Department'', dept_icon = ''U+2764U+FE0F'',
          dept_color = ''#ef4444''\<rparr>),
      (''dermatology'',
         \<lparr>dept_name = ''Dermatology Department'', dept_icon = ''U+1F52C'',
          dept_color = ''#06b6d4''\<rparr>),
      (''orthopedics'',
         \<lparr>dept_name = ''Orthopedic Department'', dept_icon = ''U+1F9B4'', dept_color = ''#8b5cf6''\<rparr>),
      (''mental_health'',
         \<lparr>dept_name = ''Mental Health Department'', dept_icon = ''U+1F9E0'',
          dept_color = ''#10b981''\<rparr>),
      (''pediatrics'',
         \<lparr>dept_name = ''Pediatrics Department'', dept_icon = ''U+1F476'', dept_color = ''#f59e0b''\<rparr>),
      (''gynecology'',
         \<lparr>dept_name = ''Women's Health Department'', dept_icon = ''U+1F469U+200DU+2695U+FE0F'',
          dept_color = ''#ec4899''\<rparr>),
      (''general'',
         \<lparr>dept_name = ''General Practice'', dept_icon = ''U+1F468U+200DU+2695U+FE0F'',
          dept_color = ''#6366f1''\<rparr>)]"

definition general_dept :: dept where
  \<comment> \<open>\<open>dept_info["general"]\<close>\<close>
  "general_dept =
     \<lparr>dept_name = ''General Practice'', dept_icon = ''U+1F468U+200DU+2695U+FE0F'',
      dept_color = ''#6366f1''\<rparr>"

definition urgency_colors :: "(string \<times> string) list" where
  "urgency_colors =
     [(''critical'', ''#dc2626''), (''high'', ''#ea580c''), (''medium'', ''#eab308''),
      (''low'', ''#16a34a'')]"

definition get_or :: "('k \<times> 'v) list \<Rightarrow> 'k \<Rightarrow> 'v \<Rightarrow> 'v" where
  \<comment> \<open>\<open>d.get(k, default)\<close>\<close>
  "get_or d k dflt = (case map_of d k of None \<Rightarrow> dflt | Some v \<Rightarrow> v)"

definition next_steps :: "string \<Rightarrow> string" where
  \<comment> \<open>The paragraph chosen by the \<open>if\<close>/\<open>elif\<close>/\<open>else\<close> chain on \<open>urgency\<close>.\<close>
  \<open>next_steps urgency =
     (if urgency = ''critical'' then
          ''<p style="color: #92400e; font-weight: bold;">U+1F6A8 IMMEDIATE ACTION ''
          @ ''REQUIRED - Contact patient immediately</p>''
      else if urgency = ''high'' then
          ''<p style="color: #92400e; font-weight: bold;">U+26A1 HIGH PRIORITY - ''
          @ ''Schedule same-day appointment</p>''
      else if urgency = ''medium'' then
          ''<p style="color: #92400e;">U+1F4C5 Schedule appointment within 3-5 days</p>''
      else
          ''<p style="color: #92400e;">U+1F4CB Routine scheduling (1-2 weeks)</p>'')\<close>

definition email_body_head ::
  "env \<Rightarrow> string \<Rightarrow> string option \<Rightarrow> string option \<Rightarrow> string option \<Rightarrow> string option \<Rightarrow>
   string option \<Rightarrow> string option \<Rightarrow> string option \<Rightarrow> string \<Rightarrow> string \<Rightarrow>
   string \<Rightarrow> dept \<Rightarrow> string \<Rightarrow> string" where
  \<comment> \<open>The formatted string first assigned to \<open>email_body\<close>.\<close>
  \<open>email_body_head env name age gender phone email insurance symptoms medical_history
     specialty urgency urgency_display dept urgency_color =
       ''<div style="font-family: Arial, sans-serif; max-width: 700px; margin: 0 ''
       @ ''auto; background: #f8fafc;"><div style="background: linear-gradient(135deg, ''
       @ ''#2c5aa0 0%, #1e3a8a 100%); color: white; padding: 2rem; text-align: ''
       @ ''center;"><h1 style="margin: 0; font-size: 1.8rem;">U+1F3E5 New Patient ''
       @ ''Alert</h1><p style="margin: 0.5rem 0 0 0; opacity: 0.9;">Healthcare Intake ''
       @ ''System</p></div><div style="padding: 2rem; background: white;"><div ''
       @ ''style="background: ''
       @ urgency_color
       @ ''; color: white; padding: 1rem; border-radius: 8px; text-align: center; ''
       @ ''margin-bottom: 2rem;"><h2 style="margin: 0; font-size: 1.2rem;">U+1F6A8 ''
       @ urgency_display
       @ ''</h2></div><div style="background: ''
       @ dept_color dept
       @ ''15; border-left: 4px solid ''
       @ dept_color dept
       @ ''; padding: 1.5rem; margin: 1.5rem 0; border-radius: 0 8px 8px 0;"><h3 ''
       @ ''style="color: ''
       @ dept_color dept
       @ ''; margin-top: 0;"><span style="font-size: 1.5rem;">''
       @ dept_icon dept
       @ ''</span> Routed to: ''
       @ dept_name dept
       @ ''</h3></div><h3 style="color: #2c5aa0; border-bottom: 2px solid #e5e7eb; ''
       @ ''padding-bottom: 0.5rem;">Patient Information</h3><div style="margin-bottom: ''
       @ ''2rem;"><p><strong>Name:</strong> ''
       @ name
       @ ''</p><p><strong>Age:</strong> ''
       @ or_else age ''Not provided''
       @ ''</p><p><strong>Gender:</strong> ''
       @ or_else gender ''Not provided''
       @ ''</p><p><strong>Phone:</strong> ''
       @ or_else phone ''Not provided''
       @ ''</p><p><strong>Email:</strong> ''
       @ or_else email ''Not provided''
       @ ''</p><p><strong>Insurance:</strong> ''
       @ or_else insurance ''Not provided''
       @ ''</p><p><strong>Department:</strong> ''
       @ str_title env specialty
       @ ''</p><p><strong>Priority:</strong> <span style="color: ''
       @ urgency_color
       @ ''; font-weight: bold;">''
       @ str_upper env urgency
       @ ''</span></p></div><h3 style="color: #2c5aa0; border-bottom: 2px solid ''
       @ ''#e5e7eb; padding-bottom: 0.5rem;">Medical Information</h3><div ''
       @ ''style="background: #f8fafc; padding: 1rem; border-radius: 8px; ''
       @ ''margin-bottom: 1rem;"><p><strong>Symptoms:</strong></p><p style="padding: ''
       @ ''0.5rem; background: white; border-radius: 4px; border-left: 3px solid ''
       @ ''#2c5aa0;">''
       @ or_else symptoms ''Not provided''
       @ ''</p><p><strong>Medical History:</strong></p><p style="padding: 0.5rem; ''
       @ ''background: white; border-radius: 4px; border-left: 3px solid #2c5aa0;">''
       @ or_else medical_history ''Not provided''
       @ ''</p></div><h3 style="color: #2c5aa0; border-bottom: 2px solid #e5e7eb; ''
       @ ''padding-bottom: 0.5rem;">Next Steps</h3><div style="background: #fef3c7; ''
       @ ''border: 1px solid #fcd34d; border-radius: 8px; padding: 1rem;">''\<close>

definition email_body_tail :: "dept \<Rightarrow> string \<Rightarrow> string" where
  \<comment> \<open>The formatted string appended last; \<open>created\<close> is the text of the clock reading.\<close>
  \<open>email_body_tail dept created =
       ''<p style="color: #92400e;">U+2022 Review patient information and medical ''
       @ ''history</p><p style="color: #92400e;">U+2022 Contact patient using provided ''
       @ ''contact information</p><p style="color: #92400e;">U+2022 Verify insurance ''
       @ ''coverage before appointment</p><p style="color: #92400e;">U+2022 Prepare ''
       @ lower (dept_name dept)
       @ '' consultation materials</p></div><div style="margin-top: 2rem; padding: ''
       @ ''1rem; background: #f1f5f9; border-radius: 8px; text-align: center;"><p ''
       @ ''style="margin: 0; color: #6b7280; font-size: 0.9rem;"><strong>Record ''
       @ ''created:</strong> ''
       @ created
       @ ''<br><strong>System:</strong> Healthcare Intake System v2.0</p></div></div>''
       @ ''</div>''\<close>

definition create_admin_notification_email ::
  "env \<Rightarrow> world \<Rightarrow> string \<Rightarrow> string option \<Rightarrow> string option \<Rightarrow> string option \<Rightarrow>
   string option \<Rightarrow> string option \<Rightarrow> string option \<Rightarrow> string option \<Rightarrow> string \<Rightarrow> string \<Rightarrow>
   string \<times> world" where
  "create_admin_notification_email env w name age gender phone email insurance symptoms
     medical_history specialty urgency =
     (let urgency_display = get_or URGENCY_LEVELS urgency (str_upper env urgency);
          dept = get_or dept_info specialty general_dept;
          urgency_color = get_or urgency_colors urgency ''#6b7280'';
          email_body =
            email_body_head env name age gender phone email insurance symptoms medical_history
              specialty urgency urgency_display dept urgency_color;
          email_body = email_body @ next_steps urgency;
          email_body = email_body @ email_body_tail dept (strftime_full env (clock w))
      in (email_body, w\<lparr>clock := Suc (clock w)\<rparr>))"

record patient_info =
  info_age :: "string option"
  info_gender :: "string option"
  info_phone :: "string option"
  info_email :: "string option"
  info_insurance :: "string option"
  info_symptoms :: "string option"
  info_medical_history :: "string option"
  info_specialty :: "string option"
  info_urgency :: "string option"

definition send_email_message ::
  "env \<Rightarrow> world \<Rightarrow> string \<Rightarrow> string \<Rightarrow> string \<Rightarrow> string option \<Rightarrow> string \<Rightarrow> string \<times> world" where
  "send_email_message env w to_email subject body cc log_prefix =
     (let w = w\<lparr>calls := calls w @ [Send_email_message to_email subject body]\<rparr>;
          w = log_system_message env w
                (log_prefix @ '': Sending to '' @ to_email @ '' - '' @ subject)
      in if \<not> EMAIL_ENABLED env then
           let message = ''Email disabled. Would send to '' @ to_email @ '': '' @ subject
           in (message, log_system_message env w message)
         else
           (case smtp_fault env of
              None \<Rightarrow>
                let w = w\<lparr>calls := calls w @ [Smtp_sendmail to_email subject body]\<rparr>;
                    success_msg = ''Email sent successfully to '' @ to_email
                in (success_msg,
                    log_system_message env w (log_prefix @ '': U+2705 '' @ success_msg))
            | Some e \<Rightarrow>
                let error_msg = ''Failed to send email: '' @ e
                in (error_msg,
                    log_system_message env w (log_prefix @ '': U+274C '' @ error_msg))))"

definition urgency_prefix :: "string \<Rightarrow> string" where
  "urgency_prefix urgency =
     (if urgency = ''critical'' then ''U+1F534 CRITICAL ALERT: ''
      else if urgency = ''high'' then ''U+1F7E0 HIGH PRIORITY: ''
      else [])"

definition notification_subject :: "env \<Rightarrow> string \<Rightarrow> string \<Rightarrow> string \<Rightarrow> string" where
  \<comment> \<open>The \<open>subject\<close> that \<open>send_admin_notification\<close> builds.\<close>
  "notification_subject env name specialty urgency =
     urgency_prefix urgency @ ''New Patient: '' @ name @ '' U+2192 '' @ str_title env specialty
       @ '' Dept''"

definition send_admin_notification ::
  "env \<Rightarrow> world \<Rightarrow> string \<Rightarrow> patient_info \<Rightarrow> string \<times> world" where
  "send_admin_notification env w name info =
     (let w = w\<lparr>calls := calls w @ [Send_admin_notification name]\<rparr>
      in if \<not> EMAIL_ENABLED env \<or> \<not> truthy (EMAIL_USER env) then (''Email not configured'', w)
         else
           let specialty = (case info_specialty info of None \<Rightarrow> ''general'' | Some s \<Rightarrow> s);
               urgency = (case info_urgency info of None \<Rightarrow> ''medium'' | Some u \<Rightarrow> u);
               subject = notification_subject env name specialty urgency;
               (body, w) =
                 create_admin_notification_email env w name (info_age info) (info_gender info)
                   (info_phone info) (info_email info) (info_insurance info)
                   (info_symptoms info) (info_medical_history info) specialty urgency;
               w = log_system_message env w
                     (''ADMIN NOTIFICATION: Sending alert for '' @ name @ '' ('' @ specialty
                      @ '', '' @ urgency @ '')'')
           in send_email_message env w (or_else (EMAIL_USER env) []) subject body None ''ADMIN'')"

section \<open>Storing a record and notifying\<close>

definition new_row ::
  "string \<Rightarrow> string \<Rightarrow> string option \<Rightarrow> string option \<Rightarrow> string option \<Rightarrow>
   string option \<Rightarrow> string option \<Rightarrow> string option \<Rightarrow> string option \<Rightarrow> string \<Rightarrow> string \<Rightarrow>
   patient_row" where
  \<comment> \<open>The eleven values bound to the \<open>INSERT\<close>; \<open>id\<close> and \<open>status\<close> are left to the
      table.\<close>
  "new_row timestamp name age gender phone email insurance symptoms medical_history
     specialty urgency =
     \<lparr>row_id = 0, row_timestamp = timestamp, row_name = name,
      row_age = or_else age [], row_gender = or_else gender [],
      row_phone = or_else phone [], row_email = or_else email [],
      row_insurance = or_else insurance [], row_symptoms = or_else symptoms [],
      row_medical_history = or_else medical_history [],
      row_specialty = specialty, row_urgency = urgency, row_status = []\<rparr>"

definition save_patient_to_database ::
  "env \<Rightarrow> world \<Rightarrow> string \<Rightarrow> string option \<Rightarrow> string option \<Rightarrow> string option \<Rightarrow>
   string option \<Rightarrow> string option \<Rightarrow> string option \<Rightarrow> string option \<Rightarrow> string \<Rightarrow> string \<Rightarrow>
   string \<times> world" where
  "save_patient_to_database env w name age gender phone email insurance symptoms
     medical_history specialty urgency =
     (let timestamp = strftime_full env (clock w);
          w = w\<lparr>clock := Suc (clock w)\<rparr>;
          w = log_system_message env w (''DATABASE: Storing patient record for '' @ name)
      in case insert_patient env (patients w)
                (new_row timestamp name age gender phone email insurance symptoms
                   medical_history specialty urgency) of
           Inl e \<Rightarrow>
             let error_msg = ''Failed to store patient record: '' @ e
             in (error_msg, log_system_message env w (''DATABASE ERROR: U+274C '' @ error_msg))
         | Inr t \<Rightarrow>
             let w = w\<lparr>patients := Some t\<rparr>;
                 w = log_system_message env w
                       (''DATABASE: U+2705 Patient record stored for '' @ name);
                 w = log_system_message env w
                       (''DEPARTMENT ROUTING: U+1F3E5 '' @ name @ '' U+2192 ''
                        @ str_title env specialty @ '' Department ('' @ str_upper env urgency
                        @ '' priority)'');
                 info = \<lparr>info_age = age, info_gender = gender, info_phone = phone,
                         info_email = email, info_insurance = insurance,
                         info_symptoms = symptoms, info_medical_history = medical_history,
                         info_specialty = Some specialty, info_urgency = Some urgency\<rparr>;
                 (email_result, w) = send_admin_notification env w name info;
                 w = log_system_message env w (''ADMIN EMAIL: '' @ email_result)
             in (''U+2705 Patient record for '' @ name
                 @ '' successfully stored and admin notified'', w))"

section \<open>Concrete environments and states\<close>

definition env_on :: env where
  "env_on = \<lparr>EMAIL_USER = Some ''clinic@example.org'', EMAIL_APP_PASSWORD = Some ''secret'',
     DB_FILE = ''patients.db'',
     strftime_hms = (\<lambda>n. ''12:00:00''), strftime_full = (\<lambda>n. ''2024-01-01 12:00:00''),
     db_fault = None, smtp_fault = Some ''Connection refused'',
     str_upper = (\<lambda>s. s), str_title = (\<lambda>s. s)\<rparr>"

definition env_off :: env where
  "env_off = env_on\<lparr>EMAIL_USER := None, EMAIL_APP_PASSWORD := None\<rparr>"

definition world0 :: world where
  "world0 = \<lparr>patients = Some empty_table, system_logs = [], clock = 0, calls = []\<rparr>"

definition ann_row :: patient_row where
  "ann_row = \<lparr>row_id = 1, row_timestamp = ''2024-01-01 12:00:00'', row_name = ''Ann'',
     row_age = [], row_gender = ''F'', row_phone = [], row_email = [], row_insurance = [],
     row_symptoms = ''fever'', row_medical_history = [], row_specialty = ''general'',
     row_urgency = ''high'', row_status = ''pending''\<rparr>"

definition bob_row :: patient_row where
  "bob_row = ann_row\<lparr>row_id := 2, row_timestamp := ''2024-03-05 09:30:00'', row_name := ''Bob''\<rparr>"

definition world2 :: world where
  "world2 = \<lparr>patients = Some \<lparr>table_rows = [ann_row, bob_row], table_seq = 2\<rparr>,
     system_logs = [], clock = 0, calls = []\<rparr>"

section \<open>The closed label sets\<close>

definition specialty_labels :: "string list" where
  "specialty_labels =
     [''emergency'', ''cardiology'', ''dermatology'', ''orthopedics'', ''mental_health'',
      ''pediatrics'', ''gynecology'', ''general'']"

definition urgency_labels :: "string list" where
  "urgency_labels = [''critical'', ''high'', ''medium'', ''low'']"

lemma any_keyword_in_iff:
  "any_keyword_in ks text \<longleftrightarrow> (\<exists>k \<in> set ks. sublist k text)"
  by (induction ks) auto

section \<open>Properties of the urgency classifier\<close>

text \<open>
  C1. For every symptoms value, \<open>assess_urgency\<close> returns \<open>critical\<close> if a keyword
  of the critical list is a substring of the lower-cased input, otherwise \<open>high\<close> if a
  keyword of the high list is, otherwise \<open>medium\<close>, also for empty or absent symptoms.
  It never returns \<open>low\<close>, and two inputs that differ only in letter case (they have
  the same lower-casing) get the same tier.
\<close>

theorem assess_urgency_tiers:
  "assess_urgency symptoms age medical_history =
     (if \<exists>s. symptoms = Some s \<and> (\<exists>k \<in> set critical_keywords. sublist k (lower s))
      then ''critical''
      else if \<exists>s. symptoms = Some s \<and> (\<exists>k \<in> set high_keywords. sublist k (lower s))
      then ''high''
      else ''medium'')
   \<and> assess_urgency symptoms age medical_history \<noteq> ''low''
   \<and> (\<forall>t u. lower t = lower u \<longrightarrow>
         assess_urgency (Some t) age medical_history =
         assess_urgency (Some u) age medical_history)"
proof -
  have e: "\<not> any_keyword_in critical_keywords []" "\<not> any_keyword_in high_keywords []"
    by (simp_all add: critical_keywords_def high_keywords_def)
  have a: "assess_urgency symptoms age medical_history =
     (if \<exists>s. symptoms = Some s \<and> (\<exists>k \<in> set critical_keywords. sublist k (lower s))
      then ''critical''
      else if \<exists>s. symptoms = Some s \<and> (\<exists>k \<in> set high_keywords. sublist k (lower s))
      then ''high''
      else ''medium'')"
  proof (cases symptoms)
    case None
    then show ?thesis by (simp add: assess_urgency_def)
  next
    case (Some s)
    show ?thesis
    proof (cases "s = []")
      case True
      with Some e show ?thesis
        by (simp add: assess_urgency_def lower_def any_keyword_in_iff)
    next
      case False
      with Some show ?thesis
        by (simp add: assess_urgency_def Let_def any_keyword_in_iff)
    qed
  qed
  have b: "assess_urgency symptoms age medical_history \<noteq> ''low''"
    unfolding a by simp
  have c: "\<forall>t u. lower t = lower u \<longrightarrow>
         assess_urgency (Some t) age medical_history =
         assess_urgency (Some u) age medical_history"
  proof (intro allI impI)
    fix t u assume l: "lower t = lower u"
    then have "t = [] \<longleftrightarrow> u = []" by (metis lower_def map_is_Nil_conv)
    with l show "assess_urgency (Some t) age medical_history =
        assess_urgency (Some u) age medical_history"
      by (simp add: assess_urgency_def Let_def)
  qed
  from a b c show ?thesis by blast
qed

theorem assess_urgency_tiers_witness:
  "lower ''I have CHEST Pain'' = lower ''i have chest pain''
   \<and> assess_urgency (Some ''I have CHEST Pain'') None None =
       assess_urgency (Some ''i have chest pain'') None None
   \<and> assess_urgency (Some ''i have chest pain'') None None = ''critical''"
proof -
  have l: "lower ''I have CHEST Pain'' = lower ''i have chest pain''"
    by code_simp
  have c: "assess_urgency (Some ''i have chest pain'') None None = ''critical''"
    by code_simp
  from assess_urgency_tiers [of "Some ''I have CHEST Pain''" None None] l c
  show ?thesis by blast
qed

text \<open>
  C10. The tier depends on the symptoms argument only: any two values of \<open>age\<close> and
  \<open>medical_history\<close> give the same result.
\<close>

theorem assess_urgency_ignores_age_and_history:
  "assess_urgency symptoms age1 history1 = assess_urgency symptoms age2 history2"
  by (simp add: assess_urgency_def)

section \<open>Properties of the specialty classifier\<close>


lemma decimal_value_snoc: "decimal_value (s @ [c]) = 10 * decimal_value s + (int (of_char c) - 48)"
  by (simp add: decimal_value_def)

lemma decimal_value_Nil: "decimal_value [] = 0"
  by (simp add: decimal_value_def)

lemma decimal_value_nonneg: "list_all decimal_char s \<Longrightarrow> 0 \<le> decimal_value s"
proof (induction s rule: rev_induct)
  case Nil
  then show ?case by (simp add: decimal_value_Nil)
next
  case (snoc c s)
  then have "0 \<le> decimal_value s" "48 \<le> (of_char c :: nat)"
    by (auto simp: decimal_char_def Let_def)
  then show ?case by (simp add: decimal_value_snoc)
qed











lemma determine_specialty_nonempty:
  "s \<noteq> [] \<Longrightarrow> determine_specialty (Some s) age =
     (if hits emergency_keywords s then Inr ''emergency''
      else if hits cardiology_keywords s then Inr ''cardiology''
      else if hits dermatology_keywords s then Inr ''dermatology''
      else if hits orthopedics_keywords s then Inr ''orthopedics''
      else if hits mental_health_keywords s then Inr ''mental_health''
      else (case age_under_18 age of
              Inl e \<Rightarrow> Inl e
            | Inr True \<Rightarrow> Inr ''pediatrics''
            | Inr False \<Rightarrow>
                if hits gynecology_keywords s then Inr ''gynecology'' else Inr ''general''))"
  by (auto simp add: determine_specialty_def Let_def any_keyword_in_iff split: sum.splits bool.splits)

text \<open>
  C2. \<open>determine_specialty\<close> tests its keyword lists in the order emergency,
  cardiology, dermatology, orthopedics, mental_health and returns on the first list with
  a matching keyword. A keyword that is in both the emergency and the cardiology list
  (\<open>chest pain\<close> is one) therefore resolves to \<open>emergency\<close>, and
  \<open>"severe chest pain and bleeding"\<close> with the empty age gives \<open>emergency\<close>.
\<close>

theorem determine_specialty_priority:
  "(s \<noteq> [] \<and> hits emergency_keywords s \<longrightarrow> determine_specialty (Some s) age = Inr ''emergency'')
   \<and> (s \<noteq> [] \<and> \<not> hits emergency_keywords s \<and> hits cardiology_keywords s \<longrightarrow>
        determine_specialty (Some s) age = Inr ''cardiology'')
   \<and> (s \<noteq> [] \<and> \<not> hits emergency_keywords s \<and> \<not> hits cardiology_keywords s
        \<and> hits dermatology_keywords s \<longrightarrow>
        determine_specialty (Some s) age = Inr ''dermatology'')
   \<and> (s \<noteq> [] \<and> \<not> hits emergency_keywords s \<and> \<not> hits cardiology_keywords s
        \<and> \<not> hits dermatology_keywords s \<and> hits orthopedics_keywords s \<longrightarrow>
        determine_specialty (Some s) age = Inr ''orthopedics'')
   \<and> (s \<noteq> [] \<and> \<not> hits emergency_keywords s \<and> \<not> hits cardiology_keywords s
        \<and> \<not> hits dermatology_keywords s \<and> \<not> hits orthopedics_keywords s
        \<and> hits mental_health_keywords s \<longrightarrow>
        determine_specialty (Some s) age = Inr ''mental_health'')
   \<and> (\<forall>k. s \<noteq> [] \<and> k \<in> set emergency_keywords \<and> k \<in> set cardiology_keywords
          \<and> sublist k (lower s) \<longrightarrow> determine_specialty (Some s) age = Inr ''emergency'')
   \<and> ''chest pain'' \<in> set emergency_keywords \<and> ''chest pain'' \<in> set cardiology_keywords
   \<and> determine_specialty (Some ''severe chest pain and bleeding'') (Some '''') = Inr ''emergency''"
proof -
  have m: "''chest pain'' \<in> set emergency_keywords" "''chest pain'' \<in> set cardiology_keywords"
    by (simp_all add: emergency_keywords_def cardiology_keywords_def)
  have x: "determine_specialty (Some ''severe chest pain and bleeding'') (Some '''') = Inr ''emergency''"
    by code_simp
  have e: "s \<noteq> [] \<and> hits emergency_keywords s \<longrightarrow>
      determine_specialty (Some s) age = Inr ''emergency''"
    by (simp add: determine_specialty_nonempty)
  have c: "s \<noteq> [] \<and> \<not> hits emergency_keywords s \<and> hits cardiology_keywords s \<longrightarrow>
        determine_specialty (Some s) age = Inr ''cardiology''"
    by (simp add: determine_specialty_nonempty)
  have d: "s \<noteq> [] \<and> \<not> hits emergency_keywords s \<and> \<not> hits cardiology_keywords s
        \<and> hits dermatology_keywords s \<longrightarrow>
        determine_specialty (Some s) age = Inr ''dermatology''"
    by (simp add: determine_specialty_nonempty)
  have o: "s \<noteq> [] \<and> \<not> hits emergency_keywords s \<and> \<not> hits cardiology_keywords s
        \<and> \<not> hits dermatology_keywords s \<and> hits orthopedics_keywords s \<longrightarrow>
        determine_specialty (Some s) age = Inr ''orthopedics''"
    by (simp add: determine_specialty_nonempty)
  have h: "s \<noteq> [] \<and> \<not> hits emergency_keywords s \<and> \<not> hits cardiology_keywords s
        \<and> \<not> hits dermatology_keywords s \<and> \<not> hits orthopedics_keywords s
        \<and> hits mental_health_keywords s \<longrightarrow>
        determine_specialty (Some s) age = Inr ''mental_health''"
    by (simp add: determine_specialty_nonempty)
  have b: "\<forall>k. s \<noteq> [] \<and> k \<in> set emergency_keywords \<and> k \<in> set cardiology_keywords
          \<and> sublist k (lower s) \<longrightarrow> determine_specialty (Some s) age = Inr ''emergency''"
    using e by blast
  from e c d o h b m x show ?thesis by (intro conjI)
qed

theorem determine_specialty_priority_witness:
  "determine_specialty (Some ''Severe CHEST pain after a run'') (Some ''12'') = Inr ''emergency''"
proof -
  have "sublist ''chest pain'' (lower ''Severe CHEST pain after a run'')" by code_simp
  moreover have "''chest pain'' \<in> set emergency_keywords"
    by (simp add: emergency_keywords_def)
  ultimately have "hits emergency_keywords ''Severe CHEST pain after a run''" by blast
  with determine_specialty_priority [of "''Severe CHEST pain after a run''" "Some ''12''"]
  show ?thesis by simp
qed



section \<open>Properties of the entity extractor\<close>

lemma first_match_None:
  "(\<forall>p \<in> set ps. search p ic s = None) \<Longrightarrow> first_match search ps ic s = None"
  by (induction ps) simp_all

text \<open>
  C9. \<open>extract_patient_details\<close> reads nothing but its argument and the patterns, so
  its result is a function of the transcript: equal transcripts give equal results. On a
  transcript that none of the name, email and phone patterns matches, and on the empty
  transcript, it returns the name \<open>Unknown\<close> and the empty string in every other
  field; no branch of it raises. The statement holds for every search function; the
  witness runs the matcher \<open>re_search\<close> defined above.
\<close>

theorem extract_defaults_when_nothing_matches:
  "((\<forall>p \<in> set name_patterns. search p True t = None)
      \<and> search email_pattern False t = None
      \<and> (\<forall>p \<in> set phone_patterns. search p False t = None)
     \<longrightarrow> extract_patient_details search t = default_details)
   \<and> extract_patient_details search [] = default_details
   \<and> default_details =
       \<lparr>details_name = ''Unknown'', details_age = [], details_gender = [], details_phone = [],
        details_email = [], details_insurance = [], details_symptoms = [],
        details_medical_history = []\<rparr>
   \<and> (\<forall>t'. t' = t \<longrightarrow> extract_patient_details search t' = extract_patient_details search t)"
  by (simp add: extract_patient_details_def first_match_None Let_def default_details_def)

theorem extract_defaults_when_nothing_matches_witness:
  "extract_patient_details re_search ''my knee hurts since 2 days'' =
     \<lparr>details_name = ''Unknown'', details_age = [], details_gender = [], details_phone = [],
      details_email = [], details_insurance = [], details_symptoms = [],
      details_medical_history = []\<rparr>"
proof -
  have n: "\<forall>p \<in> set name_patterns. re_search p True ''my knee hurts since 2 days'' = None"
    by code_simp
  have e: "re_search email_pattern False ''my knee hurts since 2 days'' = None"
    by code_simp
  have p: "\<forall>p \<in> set phone_patterns. re_search p False ''my knee hurts since 2 days'' = None"
    by code_simp
  from extract_defaults_when_nothing_matches [of re_search "''my knee hurts since 2 days''"] n e p
  show ?thesis by simp
qed

section \<open>Properties of the repository and of the notification\<close>

lemma enabled_user: "EMAIL_ENABLED env \<Longrightarrow> truthy (EMAIL_USER env)"
  by (simp add: EMAIL_ENABLED_def)

lemma log_keeps [simp]:
  "patients (log_system_message env w m) = patients w"
  "calls (log_system_message env w m) = calls w"
  by (simp_all add: log_system_message_def)

lemma log_appends [simp]:
  "system_logs (log_system_message env w m) =
     system_logs w @ [''['' @ strftime_hms env (clock w) @ ''] '' @ m]"
  by (simp add: log_system_message_def)

lemma create_email_keeps [simp]:
  "patients (snd (create_admin_notification_email env w n a g p e i s m sp u)) = patients w"
  "calls (snd (create_admin_notification_email env w n a g p e i s m sp u)) = calls w"
  "system_logs (snd (create_admin_notification_email env w n a g p e i s m sp u)) = system_logs w"
  by (simp_all add: create_admin_notification_email_def Let_def)

lemma send_email_keeps [simp]:
  "patients (snd (send_email_message env w to subject body cc pre)) = patients w"
  by (simp add: send_email_message_def Let_def split: option.splits)

lemma send_email_calls:
  "calls (snd (send_email_message env w to subject body cc pre)) =
     calls w @ Send_email_message to subject body
       # (if EMAIL_ENABLED env \<and> smtp_fault env = None then [Smtp_sendmail to subject body] else [])"
  by (simp add: send_email_message_def Let_def split: option.splits)

lemma send_email_result:
  "fst (send_email_message env w to subject body cc pre) =
     (if \<not> EMAIL_ENABLED env then ''Email disabled. Would send to '' @ to @ '': '' @ subject
      else case smtp_fault env of
             None \<Rightarrow> ''Email sent successfully to '' @ to
           | Some e \<Rightarrow> ''Failed to send email: '' @ e)"
  by (simp add: send_email_message_def Let_def split: option.splits)

lemma send_admin_keeps [simp]:
  "patients (snd (send_admin_notification env w name info)) = patients w"
  by (simp add: send_admin_notification_def Let_def split_beta)

lemma send_admin_off:
  "\<not> EMAIL_ENABLED env \<Longrightarrow>
     send_admin_notification env w name info =
       (''Email not configured'', w\<lparr>calls := calls w @ [Send_admin_notification name]\<rparr>)"
  by (simp add: send_admin_notification_def Let_def)

lemma send_admin_on_calls:
  "EMAIL_ENABLED env \<Longrightarrow>
     \<exists>to subject body.
       subject = notification_subject env name
          (case info_specialty info of None \<Rightarrow> ''general'' | Some s \<Rightarrow> s)
          (case info_urgency info of None \<Rightarrow> ''medium'' | Some u \<Rightarrow> u) \<and>
       calls (snd (send_admin_notification env w name info)) =
         calls w @ Send_admin_notification name # Send_email_message to subject body
           # (if smtp_fault env = None then [Smtp_sendmail to subject body] else [])"
  by (simp add: send_admin_notification_def Let_def split_beta send_email_calls enabled_user)

lemma send_admin_on_result:
  "EMAIL_ENABLED env \<Longrightarrow>
     fst (send_admin_notification env w name info) =
       (case smtp_fault env of
          None \<Rightarrow> ''Email sent successfully to '' @ or_else (EMAIL_USER env) []
        | Some e \<Rightarrow> ''Failed to send email: '' @ e)"
  by (simp add: send_admin_notification_def Let_def split_beta send_email_result enabled_user)

lemma fold_max_ge:
  fixes a :: int
  shows "a \<le> fold max xs a \<and> (\<forall>x \<in> set xs. x \<le> fold max xs a)"
proof (induction xs arbitrary: a)
  case Nil
  then show ?case by simp
next
  case (Cons y ys)
  have "max y a \<le> fold max ys (max y a)" "\<forall>x \<in> set ys. x \<le> fold max ys (max y a)"
    using Cons.IH [of "max y a"] by simp_all
  then show ?case by auto
qed

lemma insert_patient_Inr:
  assumes "insert_patient env table r = Inr t"
  shows "\<exists>old. table = Some old \<and> db_fault env = None
           \<and> fold max (map row_id (table_rows old)) (table_seq old) < 9223372036854775807
           \<and> t = \<lparr>table_rows = table_rows old
                     @ [r\<lparr>row_id := fold max (map row_id (table_rows old)) (table_seq old) + 1,
                          row_status := ''pending''\<rparr>],
                   table_seq = fold max (map row_id (table_rows old)) (table_seq old) + 1\<rparr>"
  using assms
  by (auto simp: insert_patient_def Let_def split: option.splits if_splits)

lemma save_success:
  assumes "insert_patient env (patients w)
             (new_row (strftime_full env (clock w)) name age gender phone email insurance
                symptoms medical_history specialty urgency) = Inr t"
  shows "fst (save_patient_to_database env w name age gender phone email insurance symptoms
                medical_history specialty urgency) =
           ''U+2705 Patient record for '' @ name @ '' successfully stored and admin notified''"
    and "patients (snd (save_patient_to_database env w name age gender phone email insurance
                symptoms medical_history specialty urgency)) = Some t"
  using assms by (simp_all add: save_patient_to_database_def Let_def split_beta)

lemma save_success_calls:
  assumes "insert_patient env (patients w)
             (new_row (strftime_full env (clock w)) name age gender phone email insurance
                symptoms medical_history specialty urgency) = Inr t"
  shows "\<exists>to body.
      calls (snd (save_patient_to_database env w name age gender phone email insurance
                symptoms medical_history specialty urgency)) =
        calls w @ Send_admin_notification name
          # (if EMAIL_ENABLED env
             then Send_email_message to (notification_subject env name specialty urgency) body
                  # (if smtp_fault env = None
                     then [Smtp_sendmail to (notification_subject env name specialty urgency) body]
                     else [])
             else [])"
proof (cases "EMAIL_ENABLED env")
  case True
  define w1 where "w1 = log_system_message env
      (log_system_message env
        ((log_system_message env (w\<lparr>clock := Suc (clock w)\<rparr>)
            (''DATABASE: Storing patient record for '' @ name))\<lparr>patients := Some t\<rparr>)
        (''DATABASE: U+2705 Patient record stored for '' @ name))
      (''DEPARTMENT ROUTING: U+1F3E5 '' @ name @ '' U+2192 ''
         @ str_title env specialty @ '' Department ('' @ str_upper env urgency
         @ '' priority)'')"
  define info where "info = \<lparr>info_age = age, info_gender = gender, info_phone = phone,
                         info_email = email, info_insurance = insurance,
                         info_symptoms = symptoms, info_medical_history = medical_history,
                         info_specialty = Some specialty, info_urgency = Some urgency\<rparr>"
  have c1: "calls w1 = calls w" by (simp add: w1_def)
  have "calls (snd (save_patient_to_database env w name age gender phone email insurance
                symptoms medical_history specialty urgency)) =
        calls (snd (send_admin_notification env w1 name info))"
    using assms by (simp add: save_patient_to_database_def Let_def split_beta w1_def info_def)
  moreover from send_admin_on_calls [OF True, of name info w1]
  obtain to subject body where
    "subject = notification_subject env name specialty urgency"
    "calls (snd (send_admin_notification env w1 name info)) =
         calls w1 @ Send_admin_notification name # Send_email_message to subject body
           # (if smtp_fault env = None then [Smtp_sendmail to subject body] else [])"
    by (auto simp: info_def)
  ultimately show ?thesis using True c1 by auto
next
  case False
  with assms show ?thesis
    by (simp add: save_patient_to_database_def Let_def split_beta send_admin_off)
qed

lemma save_success_log:
  assumes "insert_patient env (patients w)
             (new_row (strftime_full env (clock w)) name age gender phone email insurance
                symptoms medical_history specialty urgency) = Inr t"
  shows "\<exists>stamp.
      last (system_logs (snd (save_patient_to_database env w name age gender phone email
                insurance symptoms medical_history specialty urgency))) =
        stamp @ ''ADMIN EMAIL: ''
          @ (if \<not> EMAIL_ENABLED env then ''Email not configured''
             else case smtp_fault env of
                    None \<Rightarrow> ''Email sent successfully to '' @ or_else (EMAIL_USER env) []
                  | Some e \<Rightarrow> ''Failed to send email: '' @ e)"
proof (cases "EMAIL_ENABLED env")
  case True
  show ?thesis
    using assms True
    by (simp add: save_patient_to_database_def Let_def split_beta send_admin_on_result)
next
  case False
  with assms show ?thesis
    by (simp add: save_patient_to_database_def Let_def split_beta send_admin_off)
qed

lemma order_by_mset: "mset (order_by_timestamp_desc rs) = mset rs"
  by (simp add: order_by_timestamp_desc_def)

lemma order_by_sorted:
  "sorted_wrt (\<lambda>a b. row_timestamp a \<ge> row_timestamp b) (order_by_timestamp_desc rs)"
proof -
  have "sorted (map row_timestamp (sort_key row_timestamp (rev rs)))"
    by (rule sorted_sort_key)
  then have "sorted_wrt (\<lambda>a b. row_timestamp a \<le> row_timestamp b)
      (sort_key row_timestamp (rev rs))"
    by (simp add: sorted_map)
  then show ?thesis
    by (simp add: order_by_timestamp_desc_def sorted_wrt_rev)
qed

lemma order_by_distinct:
  "distinct (map row_id (order_by_timestamp_desc rs)) = distinct (map row_id rs)"
proof -
  have "mset (map row_id (order_by_timestamp_desc rs)) = mset (map row_id rs)"
    by (simp add: order_by_mset)
  then show ?thesis by (rule mset_eq_imp_distinct_iff)
qed

lemma get_all_ok:
  "db_fault env = None \<Longrightarrow> patients w = Some t \<Longrightarrow>
     fst (get_all_patients env w) = order_by_timestamp_desc (table_rows t)"
  by (simp add: get_all_patients_def select_all_def Let_def)

lemma get_all_fault:
  "db_fault env = Some e \<Longrightarrow>
     fst (get_all_patients env w) = [] \<and>
     last (system_logs (snd (get_all_patients env w))) =
       ''['' @ strftime_hms env (Suc (clock w)) @ ''] DATABASE ERROR: '' @ e"
  by (simp add: get_all_patients_def select_all_def Let_def log_system_message_def)

lemma get_all_no_table:
  "patients w = None \<Longrightarrow>
     fst (get_all_patients env w) = [] \<and>
     (\<exists>e. last (system_logs (snd (get_all_patients env w))) =
       ''['' @ strftime_hms env (Suc (clock w)) @ ''] DATABASE ERROR: '' @ e)"
  by (simp add: get_all_patients_def select_all_def Let_def log_system_message_def
      split: option.splits)

lemma get_all_sorted:
  "sorted_wrt (\<lambda>a b. row_timestamp a \<ge> row_timestamp b) (fst (get_all_patients env w))"
  by (simp add: get_all_patients_def select_all_def Let_def order_by_sorted
      split: option.splits)

lemma get_all_keeps_table: "patients (snd (get_all_patients env w)) = patients w"
  by (simp add: get_all_patients_def select_all_def Let_def split: option.splits)

text \<open>
  C8. \<open>get_all_patients\<close> returns the stored rows in descending order of their
  timestamp column, each row once. When the table has no rows, or the read fails (the
  database raises, or the table does not exist), it returns the empty list and raises
  nothing; a failed read leaves a \<open>DATABASE ERROR\<close> line as the last log entry. The
  table itself is not changed by listing.
\<close>

theorem get_all_patients_newest_first:
  "sorted_wrt (\<lambda>a b. row_timestamp a \<ge> row_timestamp b) (fst (get_all_patients env w))
   \<and> (\<forall>t. db_fault env = None \<and> patients w = Some t \<longrightarrow>
         mset (fst (get_all_patients env w)) = mset (table_rows t))
   \<and> (\<forall>t. patients w = Some t \<and> table_rows t = [] \<longrightarrow> fst (get_all_patients env w) = [])
   \<and> (\<forall>e. db_fault env = Some e \<longrightarrow>
         fst (get_all_patients env w) = [] \<and>
         last (system_logs (snd (get_all_patients env w))) =
           ''['' @ strftime_hms env (Suc (clock w)) @ ''] DATABASE ERROR: '' @ e)
   \<and> (patients w = None \<longrightarrow>
         fst (get_all_patients env w) = [] \<and>
         (\<exists>e. last (system_logs (snd (get_all_patients env w))) =
           ''['' @ strftime_hms env (Suc (clock w)) @ ''] DATABASE ERROR: '' @ e))
   \<and> patients (snd (get_all_patients env w)) = patients w"
proof -
  have e: "\<forall>t. patients w = Some t \<and> table_rows t = [] \<longrightarrow> fst (get_all_patients env w) = []"
    by (simp add: get_all_patients_def select_all_def Let_def order_by_timestamp_desc_def
        split: option.splits)
  have m: "\<forall>t. db_fault env = None \<and> patients w = Some t \<longrightarrow>
         mset (fst (get_all_patients env w)) = mset (table_rows t)"
    by (simp add: get_all_ok order_by_mset)
  from get_all_sorted [of env w] m e get_all_fault [of env _ w] get_all_no_table [of w env]
    get_all_keeps_table [of env w]
  show ?thesis by (intro conjI allI impI) blast+
qed

theorem get_all_patients_newest_first_witness:
  "sorted_wrt (\<lambda>a b. row_timestamp a \<ge> row_timestamp b) (fst (get_all_patients env_off world2))
   \<and> mset (fst (get_all_patients env_off world2)) = mset [ann_row, bob_row]
   \<and> fst (get_all_patients env_off world2) = [bob_row, ann_row]
   \<and> fst (get_all_patients env_off world0) = []
   \<and> fst (get_all_patients (env_off\<lparr>db_fault := Some ''disk I/O error''\<rparr>) world2) = []
   \<and> last (system_logs (snd (get_all_patients (env_off\<lparr>db_fault := Some ''disk I/O error''\<rparr>)
        world2))) = ''[12:00:00] DATABASE ERROR: disk I/O error''"
proof -
  have a: "db_fault env_off = None"
    "patients world2 = Some \<lparr>table_rows = [ann_row, bob_row], table_seq = 2\<rparr>"
    "patients world0 = Some empty_table" "table_rows empty_table = []"
    "db_fault (env_off\<lparr>db_fault := Some ''disk I/O error''\<rparr>) = Some ''disk I/O error''"
    "strftime_hms (env_off\<lparr>db_fault := Some ''disk I/O error''\<rparr>) (Suc (clock world2)) = ''12:00:00''"
    by (simp_all add: env_off_def env_on_def world2_def world0_def empty_table_def)
  have l: "fst (get_all_patients env_off world2) = [bob_row, ann_row]"
    by code_simp
  from get_all_patients_newest_first [of env_off world2]
    get_all_patients_newest_first [of env_off world0]
    get_all_patients_newest_first [of "env_off\<lparr>db_fault := Some ''disk I/O error''\<rparr>" world2]
    a l
  show ?thesis by (auto simp del: sorted_wrt.simps)
qed

lemma ann_insert:
  "insert_patient env_on (patients world0)
     (new_row (strftime_full env_on (clock world0)) ''Ann'' None (Some ''F'') None None None
        (Some ''fever'') None ''general'' ''high'') =
   Inr \<lparr>table_rows = [ann_row], table_seq = 1\<rparr>"
  by (simp add: insert_patient_def env_on_def world0_def empty_table_def new_row_def
      or_else_def ann_row_def)

lemma ann_insert_off:
  "insert_patient env_off (patients world0)
     (new_row (strftime_full env_off (clock world0)) ''Ann'' None (Some ''F'') None None None
        (Some ''fever'') None ''general'' ''high'') =
   Inr \<lparr>table_rows = [ann_row], table_seq = 1\<rparr>"
  by (simp add: insert_patient_def env_off_def env_on_def world0_def empty_table_def new_row_def
      or_else_def ann_row_def)

text \<open>
  C4. After an insert that succeeds, a listing that reads the store without failure
  returns the rows that were there before and one new row. The new row carries the
  name, specialty and urgency as given, every optional field as given or the empty
  string when absent, the status \<open>pending\<close>, the timestamp read at the start of the
  insert, and an id larger than every id in the table before; the ids of the listing are
  pairwise distinct when those of the table were.
\<close>

theorem insert_then_list_round_trip:
  assumes ins: "insert_patient env (patients w)
             (new_row (strftime_full env (clock w)) name age gender phone email insurance
                symptoms medical_history specialty urgency) = Inr t"
    and readable: "db_fault env' = None"
  shows "\<exists>old r listing.
      patients w = Some old
      \<and> listing = fst (get_all_patients env'
            (snd (save_patient_to_database env w name age gender phone email insurance
                    symptoms medical_history specialty urgency)))
      \<and> mset listing = mset (table_rows old) + {#r#}
      \<and> row_name r = name
      \<and> row_age r = or_else age [] \<and> row_gender r = or_else gender []
      \<and> row_phone r = or_else phone [] \<and> row_email r = or_else email []
      \<and> row_insurance r = or_else insurance [] \<and> row_symptoms r = or_else symptoms []
      \<and> row_medical_history r = or_else medical_history []
      \<and> row_specialty r = specialty \<and> row_urgency r = urgency
      \<and> row_status r = ''pending''
      \<and> row_timestamp r = strftime_full env (clock w)
      \<and> (\<forall>q \<in> set (table_rows old). row_id q < row_id r)
      \<and> (distinct (map row_id (table_rows old)) \<longrightarrow> distinct (map row_id listing))"
proof -
  let ?row = "new_row (strftime_full env (clock w)) name age gender phone email insurance
                symptoms medical_history specialty urgency"
  from insert_patient_Inr [OF ins] obtain old where
    old: "patients w = Some old"
    and t: "t = \<lparr>table_rows = table_rows old
                     @ [?row\<lparr>row_id := fold max (map row_id (table_rows old)) (table_seq old) + 1,
                          row_status := ''pending''\<rparr>],
                   table_seq = fold max (map row_id (table_rows old)) (table_seq old) + 1\<rparr>"
    by blast
  define r where "r = ?row\<lparr>row_id := fold max (map row_id (table_rows old)) (table_seq old) + 1,
                          row_status := ''pending''\<rparr>"
  define listing where "listing = fst (get_all_patients env'
            (snd (save_patient_to_database env w name age gender phone email insurance
                    symptoms medical_history specialty urgency)))"
  have rows: "table_rows t = table_rows old @ [r]" by (simp add: t r_def)
  have "listing = order_by_timestamp_desc (table_rows t)"
    unfolding listing_def using get_all_ok [OF readable save_success(2) [OF ins]] .
  then have m: "mset listing = mset (table_rows old) + {#r#}"
    by (simp add: order_by_mset rows)
  have fresh: "\<forall>q \<in> set (table_rows old). row_id q < row_id r"
    using fold_max_ge [of "table_seq old" "map row_id (table_rows old)"]
    by (auto simp: r_def)
  have d: "distinct (map row_id (table_rows old)) \<longrightarrow> distinct (map row_id listing)"
  proof
    assume "distinct (map row_id (table_rows old))"
    moreover have "row_id r \<notin> row_id ` set (table_rows old)" using fresh by auto
    ultimately have "distinct (map row_id (table_rows t))" by (simp add: rows)
    then show "distinct (map row_id listing)"
      using \<open>listing = order_by_timestamp_desc (table_rows t)\<close> by (simp add: order_by_distinct)
  qed
  have f: "row_name r = name" "row_age r = or_else age []" "row_gender r = or_else gender []"
    "row_phone r = or_else phone []" "row_email r = or_else email []"
    "row_insurance r = or_else insurance []" "row_symptoms r = or_else symptoms []"
    "row_medical_history r = or_else medical_history []"
    "row_specialty r = specialty" "row_urgency r = urgency"
    "row_status r = ''pending''" "row_timestamp r = strftime_full env (clock w)"
    by (simp_all add: r_def new_row_def)
  from old m fresh d f listing_def show ?thesis by blast
qed

theorem insert_then_list_round_trip_witness:
  "\<exists>r. mset (fst (get_all_patients env_off
            (snd (save_patient_to_database env_off world0 ''Ann'' None (Some ''F'') None None
                    None (Some ''fever'') None ''general'' ''high'')))) = {#r#}
      \<and> row_name r = ''Ann'' \<and> row_age r = [] \<and> row_gender r = ''F''
      \<and> row_symptoms r = ''fever'' \<and> row_specialty r = ''general'' \<and> row_urgency r = ''high''
      \<and> row_status r = ''pending''"
proof -
  have readable: "db_fault env_off = None" by (simp add: env_off_def env_on_def)
  from insert_then_list_round_trip [OF ann_insert_off readable]
  obtain old r listing where
    "patients world0 = Some old"
    "listing = fst (get_all_patients env_off
            (snd (save_patient_to_database env_off world0 ''Ann'' None (Some ''F'') None None
                    None (Some ''fever'') None ''general'' ''high'')))"
    "mset listing = mset (table_rows old) + {#r#}"
    "row_name r = ''Ann''" "row_age r = or_else None []" "row_gender r = or_else (Some ''F'') []"
    "row_symptoms r = or_else (Some ''fever'') []"
    "row_specialty r = ''general''" "row_urgency r = ''high''" "row_status r = ''pending''"
    by blast
  then show ?thesis
    by (auto simp: world0_def empty_table_def or_else_def)
qed

text \<open>
  C7, as amended. For every intake whose insert succeeds, \<open>save_patient_to_database\<close>
  reports success and calls \<open>send_admin_notification\<close> exactly once. That call hands
  exactly one message to the dispatcher \<open>send_email_message\<close> when email is configured
  and none when it is not. The message goes to the SMTP server at most once (never again
  after a failure). The stored table is the one the insert produced, with the new row
  \<open>pending\<close>, whatever the email configuration and whatever the transport does; a
  dispatch failure only shows as the text of the last log line.
\<close>

theorem save_then_one_notification:
  assumes ins: "insert_patient env (patients w)
             (new_row (strftime_full env (clock w)) name age gender phone email insurance
                symptoms medical_history specialty urgency) = Inr t"
  shows "\<exists>w' to body stamp old r.
      save_patient_to_database env w name age gender phone email insurance symptoms
          medical_history specialty urgency =
        (''U+2705 Patient record for '' @ name @ '' successfully stored and admin notified'', w')
      \<and> calls w' =
          calls w @ Send_admin_notification name
            # (if EMAIL_ENABLED env
               then Send_email_message to (notification_subject env name specialty urgency) body
                    # (if smtp_fault env = None
                       then [Smtp_sendmail to (notification_subject env name specialty urgency) body]
                       else [])
               else [])
      \<and> patients w = Some old \<and> patients w' = Some t
      \<and> table_rows t = table_rows old @ [r] \<and> row_name r = name \<and> row_status r = ''pending''
      \<and> (\<forall>user pw fault.
            patients (snd (save_patient_to_database
                (env\<lparr>EMAIL_USER := user, EMAIL_APP_PASSWORD := pw, smtp_fault := fault\<rparr>)
                w name age gender phone email insurance symptoms medical_history specialty
                urgency)) = Some t)
      \<and> last (system_logs w') =
          stamp @ ''ADMIN EMAIL: ''
            @ (if \<not> EMAIL_ENABLED env then ''Email not configured''
               else case smtp_fault env of
                      None \<Rightarrow> ''Email sent successfully to '' @ or_else (EMAIL_USER env) []
                    | Some e \<Rightarrow> ''Failed to send email: '' @ e)"
proof -
  let ?save = "save_patient_to_database env w name age gender phone email insurance symptoms
          medical_history specialty urgency"
  from insert_patient_Inr [OF ins] obtain old where
    old: "patients w = Some old"
    and t: "table_rows t = table_rows old
       @ [(new_row (strftime_full env (clock w)) name age gender phone email insurance
                symptoms medical_history specialty urgency)
           \<lparr>row_id := fold max (map row_id (table_rows old)) (table_seq old) + 1,
             row_status := ''pending''\<rparr>]"
    by force
  have indep: "\<forall>user pw fault.
            patients (snd (save_patient_to_database
                (env\<lparr>EMAIL_USER := user, EMAIL_APP_PASSWORD := pw, smtp_fault := fault\<rparr>)
                w name age gender phone email insurance symptoms medical_history specialty
                urgency)) = Some t"
  proof (intro allI)
    fix user pw fault
    let ?env = "env\<lparr>EMAIL_USER := user, EMAIL_APP_PASSWORD := pw, smtp_fault := fault\<rparr>"
    have "insert_patient ?env (patients w)
             (new_row (strftime_full ?env (clock w)) name age gender phone email insurance
                symptoms medical_history specialty urgency) = Inr t"
      using ins by (simp add: insert_patient_def)
    from save_success(2) [OF this]
    show "patients (snd (save_patient_to_database ?env w name age gender phone email insurance
        symptoms medical_history specialty urgency)) = Some t" .
  qed
  from save_success_calls [OF ins] obtain to body where
    c: "calls (snd ?save) =
        calls w @ Send_admin_notification name
          # (if EMAIL_ENABLED env
             then Send_email_message to (notification_subject env name specialty urgency) body
                  # (if smtp_fault env = None
                     then [Smtp_sendmail to (notification_subject env name specialty urgency) body]
                     else [])
             else [])"
    by blast
  from save_success_log [OF ins] obtain stamp where
    l: "last (system_logs (snd ?save)) =
        stamp @ ''ADMIN EMAIL: ''
          @ (if \<not> EMAIL_ENABLED env then ''Email not configured''
             else case smtp_fault env of
                    None \<Rightarrow> ''Email sent successfully to '' @ or_else (EMAIL_USER env) []
                  | Some e \<Rightarrow> ''Failed to send email: '' @ e)"
    by blast
  have s: "?save = (''U+2705 Patient record for '' @ name
      @ '' successfully stored and admin notified'', snd ?save)"
    using save_success(1) [OF ins] by (metis prod.collapse)
  have r: "row_name ((new_row (strftime_full env (clock w)) name age gender phone email insurance
                symptoms medical_history specialty urgency)
           \<lparr>row_id := fold max (map row_id (table_rows old)) (table_seq old) + 1,
             row_status := ''pending''\<rparr>) = name"
    "row_status ((new_row (strftime_full env (clock w)) name age gender phone email insurance
                symptoms medical_history specialty urgency)
           \<lparr>row_id := fold max (map row_id (table_rows old)) (table_seq old) + 1,
             row_status := ''pending''\<rparr>) = ''pending''"
    by (simp_all add: new_row_def)
  from s c old save_success(2) [OF ins] t r indep l show ?thesis by blast
qed

theorem save_then_one_notification_witness:
  "\<exists>w' to body.
      save_patient_to_database env_on world0 ''Ann'' None (Some ''F'') None None None
          (Some ''fever'') None ''general'' ''high'' =
        (''U+2705 Patient record for Ann successfully stored and admin notified'', w')
      \<and> calls w' =
          [Send_admin_notification ''Ann'',
           Send_email_message to ''U+1F7E0 HIGH PRIORITY: New Patient: Ann U+2192 general Dept'' body]
      \<and> patients w' = Some \<lparr>table_rows = [ann_row], table_seq = 1\<rparr>"
proof -
  have on: "EMAIL_ENABLED env_on" "smtp_fault env_on \<noteq> None"
    by (simp_all add: EMAIL_ENABLED_def truthy_def env_on_def)
  have s: "notification_subject env_on ''Ann'' ''general'' ''high'' =
      ''U+1F7E0 HIGH PRIORITY: New Patient: Ann U+2192 general Dept''"
    by (simp add: notification_subject_def urgency_prefix_def env_on_def)
  have c: "calls world0 = []" by (simp add: world0_def)
  from save_then_one_notification [OF ann_insert] on s c show ?thesis
    by (auto simp del: One_nat_def)
qed

text \<open>
  The claim as first stated, one dispatch attempt for every successful insert, fails
  when email is not configured: the insert succeeds and the row is stored, but the trace
  holds the entry into \<open>send_admin_notification\<close> only, which returned before building
  or dispatching any message.
\<close>

theorem no_dispatch_when_email_off_counterexample:
  "fst (save_patient_to_database env_off world0 ''Ann'' None (Some ''F'') None None None
          (Some ''fever'') None ''general'' ''high'') =
     ''U+2705 Patient record for Ann successfully stored and admin notified''
   \<and> patients (snd (save_patient_to_database env_off world0 ''Ann'' None (Some ''F'') None None
          None (Some ''fever'') None ''general'' ''high'')) =
       Some \<lparr>table_rows = [ann_row], table_seq = 1\<rparr>
   \<and> calls (snd (save_patient_to_database env_off world0 ''Ann'' None (Some ''F'') None None
          None (Some ''fever'') None ''general'' ''high'')) = [Send_admin_notification ''Ann'']"
proof -
  have off: "\<not> EMAIL_ENABLED env_off"
    by (simp add: EMAIL_ENABLED_def truthy_def env_off_def env_on_def)
  have c: "calls world0 = []" by (simp add: world0_def)
  from save_success [OF ann_insert_off] save_success_calls [OF ann_insert_off] off c
  show ?thesis by simp
qed

text \<open>
  C6. The subject that \<open>send_admin_notification\<close> builds and hands to the dispatcher
  starts with an urgency marker if and only if the urgency is \<open>critical\<close> or
  \<open>high\<close>; for every other urgency value the subject is the plain
  \<open>New Patient: ...\<close> line.
\<close>

theorem subject_urgency_prefix:
  "notification_subject env name specialty urgency =
     urgency_prefix urgency @ ''New Patient: '' @ name @ '' U+2192 '' @ str_title env specialty
       @ '' Dept''
   \<and> (urgency_prefix urgency \<noteq> [] \<longleftrightarrow> urgency = ''critical'' \<or> urgency = ''high'')
   \<and> (prefix ''U+1F534 CRITICAL ALERT: '' (notification_subject env name specialty urgency)
        \<longleftrightarrow> urgency = ''critical'')
   \<and> (prefix ''U+1F7E0 HIGH PRIORITY: '' (notification_subject env name specialty urgency)
        \<longleftrightarrow> urgency = ''high'')
   \<and> (urgency \<noteq> ''critical'' \<and> urgency \<noteq> ''high'' \<longrightarrow>
        notification_subject env name specialty urgency =
          ''New Patient: '' @ name @ '' U+2192 '' @ str_title env specialty @ '' Dept'')
   \<and> (EMAIL_ENABLED env \<and> info_specialty info = Some specialty \<and> info_urgency info = Some urgency
        \<longrightarrow> (\<exists>to body rest.
              calls (snd (send_admin_notification env w name info)) =
                calls w @ Send_admin_notification name
                  # Send_email_message to (notification_subject env name specialty urgency) body
                  # rest))"
proof -
  have a: "notification_subject env name specialty urgency =
     urgency_prefix urgency @ ''New Patient: '' @ name @ '' U+2192 '' @ str_title env specialty
       @ '' Dept''
   \<and> (urgency_prefix urgency \<noteq> [] \<longleftrightarrow> urgency = ''critical'' \<or> urgency = ''high'')
   \<and> (prefix ''U+1F534 CRITICAL ALERT: '' (notification_subject env name specialty urgency)
        \<longleftrightarrow> urgency = ''critical'')
   \<and> (prefix ''U+1F7E0 HIGH PRIORITY: '' (notification_subject env name specialty urgency)
        \<longleftrightarrow> urgency = ''high'')
   \<and> (urgency \<noteq> ''critical'' \<and> urgency \<noteq> ''high'' \<longrightarrow>
        notification_subject env name specialty urgency =
          ''New Patient: '' @ name @ '' U+2192 '' @ str_title env specialty @ '' Dept'')"
    by (simp add: notification_subject_def urgency_prefix_def)
  have b: "EMAIL_ENABLED env \<and> info_specialty info = Some specialty \<and> info_urgency info = Some urgency
        \<longrightarrow> (\<exists>to body rest.
              calls (snd (send_admin_notification env w name info)) =
                calls w @ Send_admin_notification name
                  # Send_email_message to (notification_subject env name specialty urgency) body
                  # rest)"
  proof
    assume h: "EMAIL_ENABLED env \<and> info_specialty info = Some specialty
      \<and> info_urgency info = Some urgency"
    then have "EMAIL_ENABLED env" by simp
    from send_admin_on_calls [OF this, of name info w] h
    show "\<exists>to body rest.
              calls (snd (send_admin_notification env w name info)) =
                calls w @ Send_admin_notification name
                  # Send_email_message to (notification_subject env name specialty urgency) body
                  # rest"
      by auto
  qed
  from a b show ?thesis by blast
qed

theorem subject_urgency_prefix_witness:
  "notification_subject env_on ''Ann'' ''general'' ''low'' = ''New Patient: Ann U+2192 general Dept''
   \<and> notification_subject env_on ''Ann'' ''general'' ''critical'' =
       ''U+1F534 CRITICAL ALERT: New Patient: Ann U+2192 general Dept''"
  using subject_urgency_prefix [of env_on "''Ann''" "''general''" "''low''"]
    subject_urgency_prefix [of env_on "''Ann''" "''general''" "''critical''"]
  by (simp add: env_on_def urgency_prefix_def)

lemma dept_info_keys: "map fst dept_info = specialty_labels"
  by (simp add: dept_info_def specialty_labels_def)

lemma urgency_keys:
  "map fst URGENCY_LEVELS = urgency_labels" "map fst urgency_colors = urgency_labels"
  by (simp_all add: URGENCY_LEVELS_def urgency_colors_def urgency_labels_def)

lemma get_or_absent: "k \<notin> set (map fst d) \<Longrightarrow> get_or d k dflt = dflt"
  by (simp add: get_or_def map_of_eq_None_iff [THEN iffD2])

lemma general_entry: "get_or dept_info ''general'' dflt = general_dept"
  by (simp add: get_or_def dept_info_def general_dept_def)

text \<open>
  C5, as amended. The notification content builder has no failing branch. For a specialty
  outside the eight labels it uses the department entry of \<open>general\<close> (name, icon and
  colour of the banner and of the consultation line). For an urgency outside the four
  labels it does not behave as for \<open>medium\<close>: the urgency banner shows the upper-cased
  label on the colour \<open>#6b7280\<close>, the next-steps paragraph is the routine-scheduling
  one, which is what \<open>low\<close> gets, and the subject has no prefix, as for \<open>medium\<close>.
  The body is the head, the next-steps paragraph and the tail built from these values.
\<close>

theorem unrecognized_labels_in_notification:
  "(specialty \<notin> set specialty_labels \<longrightarrow>
      get_or dept_info specialty general_dept = get_or dept_info ''general'' general_dept)
   \<and> (urgency \<notin> set urgency_labels \<longrightarrow>
        get_or URGENCY_LEVELS urgency (str_upper env urgency) = str_upper env urgency
        \<and> get_or urgency_colors urgency ''#6b7280'' = ''#6b7280''
        \<and> next_steps urgency = next_steps ''low''
        \<and> urgency_prefix urgency = urgency_prefix ''medium'')
   \<and> fst (create_admin_notification_email env w name age gender phone email insurance symptoms
            medical_history specialty urgency) =
       email_body_head env name age gender phone email insurance symptoms medical_history
         specialty urgency
         (get_or URGENCY_LEVELS urgency (str_upper env urgency))
         (get_or dept_info specialty general_dept)
         (get_or urgency_colors urgency ''#6b7280'')
       @ next_steps urgency
       @ email_body_tail (get_or dept_info specialty general_dept) (strftime_full env (clock w))"
proof -
  have s: "specialty \<notin> set specialty_labels \<longrightarrow>
      get_or dept_info specialty general_dept = get_or dept_info ''general'' general_dept"
    by (simp add: get_or_absent dept_info_keys general_entry)
  have u: "urgency \<notin> set urgency_labels \<longrightarrow>
        get_or URGENCY_LEVELS urgency (str_upper env urgency) = str_upper env urgency
        \<and> get_or urgency_colors urgency ''#6b7280'' = ''#6b7280''"
    by (simp add: get_or_absent urgency_keys)
  have n: "urgency \<notin> set urgency_labels \<longrightarrow>
        next_steps urgency = next_steps ''low'' \<and> urgency_prefix urgency = urgency_prefix ''medium''"
    by (simp add: urgency_labels_def next_steps_def urgency_prefix_def)
  have b: "fst (create_admin_notification_email env w name age gender phone email insurance
            symptoms medical_history specialty urgency) =
       email_body_head env name age gender phone email insurance symptoms medical_history
         specialty urgency
         (get_or URGENCY_LEVELS urgency (str_upper env urgency))
         (get_or dept_info specialty general_dept)
         (get_or urgency_colors urgency ''#6b7280'')
       @ next_steps urgency
       @ email_body_tail (get_or dept_info specialty general_dept) (strftime_full env (clock w))"
    by (simp add: create_admin_notification_email_def Let_def)
  from s u n b show ?thesis by blast
qed

theorem unrecognized_labels_in_notification_witness:
  \<open>get_or dept_info ''oncology'' general_dept = general_dept
   \<and> get_or URGENCY_LEVELS ''urgent'' (str_upper env_on ''urgent'') = ''urgent''
   \<and> get_or urgency_colors ''urgent'' ''#6b7280'' = ''#6b7280''
   \<and> next_steps ''urgent'' = ''<p style="color: #92400e;">U+1F4CB Routine scheduling (1-2 weeks)</p>''\<close>
proof -
  have a: "''oncology'' \<notin> set specialty_labels" "''urgent'' \<notin> set urgency_labels"
    by (simp_all add: specialty_labels_def urgency_labels_def)
  have l: \<open>next_steps ''low'' =
      ''<p style="color: #92400e;">U+1F4CB Routine scheduling (1-2 weeks)</p>''\<close>
    by (simp add: next_steps_def)
  have e: "str_upper env_on ''urgent'' = ''urgent''" by (simp add: env_on_def)
  from unrecognized_labels_in_notification [of "''oncology''" "''urgent''" env_on] a l e
    general_entry [of general_dept]
  show ?thesis by simp
qed

text \<open>
  The claim as first stated fails for the urgency label \<open>urgent\<close>: its next-steps
  paragraph, its banner colour and its banner text all differ from those of \<open>medium\<close>.
\<close>

theorem unknown_urgency_not_medium_counterexample:
  "''urgent'' \<notin> set urgency_labels
   \<and> next_steps ''urgent'' \<noteq> next_steps ''medium''
   \<and> next_steps ''urgent'' = next_steps ''low''
   \<and> get_or urgency_colors ''urgent'' ''#6b7280'' \<noteq> get_or urgency_colors ''medium'' ''#6b7280''
   \<and> get_or URGENCY_LEVELS ''urgent'' (str_upper env_on ''urgent'')
       \<noteq> get_or URGENCY_LEVELS ''medium'' (str_upper env_on ''medium'')"
  by (simp add: urgency_labels_def next_steps_def get_or_def urgency_colors_def
      URGENCY_LEVELS_def env_on_def)

end
